theory Spec2Isabelle
  imports Main "HOL-Library.Stream"
begin

section \<open>Barcode generator: filename sanitisation\<close>

text \<open>
  Python strings are modelled as \<^typ>\<open>string\<close>. The two characters that cannot be
  written inside a string literal here are given by their code: backslash is
  \<open>CHR 0x5C\<close> and the double quote is \<open>CHR 0x22\<close>.
\<close>

definition backslash :: char where
  "backslash = CHR 0x5C"

definition dquote :: char where
  "dquote = CHR 0x22"

text \<open>
  The character class of the pattern \<^verbatim>\<open>r'[\\/*?:"<>|]'\<close> in \<^verbatim>\<open>_sanitize_filename\<close>:
  an escaped backslash followed by eight literal characters.
\<close>

definition invalid_chars :: "char list" where
  "invalid_chars =
     [backslash, CHR ''/'', CHR ''*'', CHR ''?'', CHR '':'', dquote, CHR ''<'', CHR ''>'', CHR ''|'']"

text \<open>
  \<^verbatim>\<open>re.sub(pattern, repl, s)\<close> for a pattern that is one character class: the scan
  goes left to right; a character of the class is a match of length one and is replaced
  by \<open>repl\<close>, any other character is copied.
\<close>

fun re_sub_class :: "char list \<Rightarrow> string \<Rightarrow> string \<Rightarrow> string" where
  "re_sub_class cls repl [] = []"
| "re_sub_class cls repl (c # s) =
     (if c \<in> set cls then repl @ re_sub_class cls repl s else c # re_sub_class cls repl s)"

text \<open>\<^verbatim>\<open>BarcodeGenerator._sanitize_filename\<close> (an Isabelle name cannot start with an underscore).\<close>

definition sanitize_filename :: "string \<Rightarrow> string" where
  "sanitize_filename filename = re_sub_class invalid_chars ''_'' filename"

section \<open>Python values used by the generator\<close>

text \<open>\<^verbatim>\<open>string.digits\<close>.\<close>

definition string_digits :: string where
  "string_digits = ''0123456789''"

text \<open>
  The decimal text of a Python \<^verbatim>\<open>int\<close>, as an f-string field \<^verbatim>\<open>{service_cycles}\<close>
  produces it: no sign for a non-negative number, a leading \<open>-\<close> for a negative one, no
  leading zeros. Python integers are unbounded, hence \<^typ>\<open>int\<close>.
\<close>

fun digits_of_nat :: "nat \<Rightarrow> string" where
  "digits_of_nat n =
     (if n < 10 then [string_digits ! n]
      else digits_of_nat (n div 10) @ [string_digits ! (n mod 10)])"

declare digits_of_nat.simps [simp del]

definition str_int :: "int \<Rightarrow> string" where
  "str_int i = (if i < 0 then CHR ''-'' # digits_of_nat (nat (- i)) else digits_of_nat (nat i))"

text \<open>A parameter with a default value: \<open>None\<close> is the call that omits the argument.\<close>

definition default :: "'a \<Rightarrow> 'a option \<Rightarrow> 'a" where
  "default d arg = (case arg of None \<Rightarrow> d | Some v \<Rightarrow> v)"

section \<open>The world outside the generator\<close>

text \<open>
  A value of \<^verbatim>\<open>datetime.now()\<close>, and its text under the format \<^verbatim>\<open>"%Y%m%d%H%M%S"\<close>:
  the year zero-padded to four digits, the other five fields to two.
\<close>

record datetime =
  year :: nat
  month :: nat
  day :: nat
  hour :: nat
  minute :: nat
  second :: nat

definition zero_pad :: "nat \<Rightarrow> nat \<Rightarrow> string" where
  "zero_pad width n = replicate (width - length (digits_of_nat n)) (CHR ''0'') @ digits_of_nat n"

definition strftime_YmdHMS :: "datetime \<Rightarrow> string" where
  "strftime_YmdHMS dt =
     zero_pad 4 (year dt) @ zero_pad 2 (month dt) @ zero_pad 2 (day dt) @
     zero_pad 2 (hour dt) @ zero_pad 2 (minute dt) @ zero_pad 2 (second dt)"

definition valid_datetime :: "datetime \<Rightarrow> bool" where
  "valid_datetime dt \<longleftrightarrow>
     1 \<le> year dt \<and> year dt \<le> 9999 \<and> 1 \<le> month dt \<and> month dt \<le> 12 \<and>
     1 \<le> day dt \<and> day dt \<le> 31 \<and> hour dt < 24 \<and> minute dt < 60 \<and> second dt < 60"

text \<open>An exception raised by a collaborator: its class and its message.\<close>

datatype exn = Exn string string

text \<open>
  The calls the generator makes to its collaborators, in the order it makes them:
  \<^verbatim>\<open>print\<close>, \<^verbatim>\<open>os.path.exists\<close>, \<^verbatim>\<open>os.makedirs\<close>, \<^verbatim>\<open>barcode.get\<close> (symbology, payload,
  image format of the writer) and the \<^verbatim>\<open>save\<close> of the object \<^verbatim>\<open>barcode.get\<close> returned
  (the filename stem).
\<close>

datatype event =
    Print string
  | Path_exists string
  | Makedirs string
  | Barcode_get string string string
  | Barcode_save string

text \<open>
  What the collaborators answer. \<^verbatim>\<open>os.path.exists\<close> never raises; \<^verbatim>\<open>os.makedirs\<close>
  returns nothing or raises; \<^verbatim>\<open>barcode.get\<close> returns a barcode object or raises (unknown
  symbology, characters the symbology cannot encode); \<^verbatim>\<open>save\<close> returns the path of the
  file it wrote or raises.
\<close>

record 'obj platform =
  os_path_exists :: "string \<Rightarrow> bool"
  os_makedirs :: "string \<Rightarrow> exn option"
  barcode_get :: "string \<Rightarrow> string \<Rightarrow> string \<Rightarrow> exn + 'obj"
  barcode_save :: "'obj \<Rightarrow> string \<Rightarrow> exn + string"

text \<open>
  The state that changes during a call: the values the random generator will draw next,
  the clock, and the calls made so far (oldest first).
\<close>

record world =
  rng :: "nat stream"
  clock :: datetime
  log :: "event list"

definition emit :: "event \<Rightarrow> world \<Rightarrow> world" where
  "emit e w = w\<lparr>log := log w @ [e]\<rparr>"

text \<open>
  \<^verbatim>\<open>random.choices(population, k=k)\<close> for a non-empty population: \<open>k\<close> draws with
  replacement, each taking the next value \<open>r\<close> of the random source and selecting
  \<open>population[r mod len(population)]\<close>; a negative \<open>k\<close> draws nothing. The only call of
  the generator passes \<^verbatim>\<open>string.digits\<close>.
\<close>

definition random_choices :: "string \<Rightarrow> int \<Rightarrow> world \<Rightarrow> string \<times> world" where
  "random_choices population k w =
     (map (\<lambda>r. population ! (r mod length population)) (stake (nat k) (rng w)),
      w\<lparr>rng := sdrop (nat k) (rng w)\<rparr>)"

section \<open>The generator\<close>

record generator =
  output_dir :: string

text \<open>\<^verbatim>\<open>BarcodeGenerator.__init__\<close>.\<close>

definition init :: "'obj platform \<Rightarrow> string option \<Rightarrow> world \<Rightarrow> (exn + generator) \<times> world" where
  "init p output_dir_arg w =
     (let dir = default ''barcodes'' output_dir_arg;
          self = \<lparr>output_dir = dir\<rparr>;
          w1 = emit (Path_exists dir) w
      in if \<not> os_path_exists p dir
         then (let w2 = emit (Makedirs dir) w1
               in case os_makedirs p dir of
                    Some e \<Rightarrow> (Inl e, w2)
                  | None \<Rightarrow> (Inr self, w2))
         else (Inr self, w1))"

text \<open>\<^verbatim>\<open>BarcodeGenerator.generate_random_serial\<close>.\<close>

definition generate_random_serial :: "string option \<Rightarrow> int option \<Rightarrow> world \<Rightarrow> string \<times> world" where
  "generate_random_serial prefix_arg length_arg w =
     (let prefix = default ''SN'' prefix_arg;
          len = default 8 length_arg;
          (digits, w1) = random_choices string_digits len w
      in (prefix @ digits, w1))"



text \<open>The payload of line 88: \<^verbatim>\<open>f"SN:{serial_number}|SC:{service_cycles}|PN:{part_number}"\<close>.\<close>

definition barcode_data :: "string \<Rightarrow> int \<Rightarrow> string \<Rightarrow> string" where
  "barcode_data serial_number service_cycles part_number =
     ''SN:'' @ serial_number @ ''|SC:'' @ str_int service_cycles @ ''|PN:'' @ part_number"

text \<open>\<^verbatim>\<open>BarcodeGenerator.generate_barcode\<close>.\<close>

definition generate_barcode ::
  "'obj platform \<Rightarrow> generator \<Rightarrow> string \<Rightarrow> int \<Rightarrow> string \<Rightarrow> world \<Rightarrow> (exn + string) \<times> world" where
  "generate_barcode p self serial_number service_cycles part_number w =
     (let data = barcode_data serial_number service_cycles part_number;
          w1 = emit (Print (''barcode_data: '' @ data)) w;
          timestamp = strftime_YmdHMS (clock w1);
          safe_serial = sanitize_filename serial_number;
          filename = output_dir self @ ''/barcode_'' @ safe_serial @ ''_'' @ timestamp;
          w2 = emit (Barcode_get ''code128'' data ''JPEG'') w1
      in case barcode_get p ''code128'' data ''JPEG'' of
           Inl e \<Rightarrow> (Inl e, w2)
         | Inr code128 \<Rightarrow>
             (let w3 = emit (Barcode_save filename) w2
              in case barcode_save p code128 filename of
                   Inl e \<Rightarrow> (Inl e, w3)
                 | Inr full_path \<Rightarrow> (Inr full_path, w3)))"

text \<open>\<^verbatim>\<open>BarcodeGenerator.generate_barcode_with_default_cycles\<close>.\<close>

definition generate_barcode_with_default_cycles ::
  "'obj platform \<Rightarrow> generator \<Rightarrow> string \<Rightarrow> string \<Rightarrow> int option \<Rightarrow> world \<Rightarrow> (exn + string) \<times> world" where
  "generate_barcode_with_default_cycles p self serial_number part_number default_cycles_arg w =
     generate_barcode p self serial_number (default 1000 default_cycles_arg) part_number w"

text \<open>\<^verbatim>\<open>BarcodeGenerator.generate_barcode_with_random_serial\<close>.\<close>

definition generate_barcode_with_random_serial ::
  "'obj platform \<Rightarrow> generator \<Rightarrow> string \<Rightarrow> int \<Rightarrow> string option \<Rightarrow> int option \<Rightarrow> world
     \<Rightarrow> (exn + string \<times> string) \<times> world" where
  "generate_barcode_with_random_serial p self part_number service_cycles prefix_arg length_arg w =
     (let prefix = default ''SN'' prefix_arg;
          len = default 8 length_arg;
          (serial_number, w1) = generate_random_serial (Some prefix) (Some len) w
      in case generate_barcode p self serial_number service_cycles part_number w1 of
           (Inl e, w2) \<Rightarrow> (Inl e, w2)
         | (Inr barcode_path, w2) \<Rightarrow> (Inr (barcode_path, serial_number), w2))"

section \<open>Observing a call\<close>

text \<open>The calls made between an earlier world and a later one.\<close>

definition calls_since :: "world \<Rightarrow> world \<Rightarrow> event list" where
  "calls_since w w' = drop (length (log w)) (log w')"

fun is_get :: "event \<Rightarrow> bool" where
  "is_get (Barcode_get _ _ _) = True"
| "is_get _ = False"

fun is_save :: "event \<Rightarrow> bool" where
  "is_save (Barcode_save _) = True"
| "is_save _ = False"



text \<open>Concrete worlds for the examples: a fixed clock, an empty log and a given random source.\<close>

definition example_clock :: datetime where
  "example_clock = \<lparr>year = 2023, month = 10, day = 15, hour = 12, minute = 30, second = 45\<rparr>"

definition world_of :: "nat stream \<Rightarrow> world" where
  "world_of s = \<lparr>rng = s, clock = example_clock, log = []\<rparr>"

text \<open>Collaborators for the examples: one that succeeds, and three that fail at one call each.\<close>

definition example_platform :: "string platform" where
  "example_platform =
     \<lparr>os_path_exists = (\<lambda>dir. False),
      os_makedirs = (\<lambda>dir. None),
      barcode_get = (\<lambda>symbology data fmt. Inr data),
      barcode_save = (\<lambda>obj stem. Inr (stem @ ''.jpeg''))\<rparr>"

definition permission_error :: exn where
  "permission_error = Exn ''PermissionError'' ''Permission denied''"

definition illegal_character_error :: exn where
  "illegal_character_error = Exn ''IllegalCharacterError'' ''Code128 cannot encode the payload''"

definition os_error :: exn where
  "os_error = Exn ''OSError'' ''No space left on device''"

definition makedirs_fails :: "string platform" where
  "makedirs_fails = example_platform\<lparr>os_makedirs := (\<lambda>dir. Some permission_error)\<rparr>"

definition get_fails :: "string platform" where
  "get_fails = example_platform\<lparr>barcode_get := (\<lambda>symbology data fmt. Inl illegal_character_error)\<rparr>"

definition save_fails :: "string platform" where
  "save_fails = example_platform\<lparr>barcode_save := (\<lambda>obj stem. Inl os_error)\<rparr>"

definition example_generator :: generator where
  "example_generator = \<lparr>output_dir = ''test_barcodes''\<rparr>"

section \<open>Reading a payload back\<close>

text \<open>
  The repository has no decoder. The specification says the payload is "reconstructible by
  splitting on \<open>|\<close> then \<open>:\<close>"; the following definitions follow these words: the payload
  is split at every \<open>|\<close> (Python's \<^verbatim>\<open>str.split\<close>), each part is split at its first \<open>:\<close>
  into a key and a value, and the value of \<open>SC\<close> is read as a decimal integer.
\<close>

fun spec_split_on :: "char \<Rightarrow> string \<Rightarrow> string list" where
  "spec_split_on sep [] = [] # []"
| "spec_split_on sep (c # s) =
     (if c = sep then [] # spec_split_on sep s
      else (case spec_split_on sep s of [] \<Rightarrow> [c] # [] | p # ps \<Rightarrow> (c # p) # ps))"

definition spec_split_first :: "char \<Rightarrow> string \<Rightarrow> string \<times> string" where
  "spec_split_first sep s = (takeWhile (\<lambda>c. c \<noteq> sep) s, drop 1 (dropWhile (\<lambda>c. c \<noteq> sep) s))"

definition spec_parse_nat :: "string \<Rightarrow> nat option" where
  "spec_parse_nat s =
     (if s \<noteq> [] \<and> set s \<subseteq> set string_digits
      then Some (foldl (\<lambda>a c. 10 * a + (of_char c - 48)) 0 s) else None)"

definition spec_parse_int :: "string \<Rightarrow> int option" where
  "spec_parse_int s =
     (if s \<noteq> [] \<and> hd s = CHR ''-'' then map_option (\<lambda>n. - int n) (spec_parse_nat (tl s))
      else map_option int (spec_parse_nat s))"

definition spec_parse_payload :: "string \<Rightarrow> (string \<times> int \<times> string) option" where
  "spec_parse_payload s =
     (case map (spec_split_first CHR '':'') (spec_split_on CHR ''|'' s) of
        [(k1, sn), (k2, sc), (k3, pn)] \<Rightarrow>
          (if k1 = ''SN'' \<and> k2 = ''SC'' \<and> k3 = ''PN''
           then map_option (\<lambda>n. (sn, n, pn)) (spec_parse_int sc) else None)
      | _ \<Rightarrow> None)"

section \<open>Properties of the sanitisation\<close>

lemma re_sub_class_single:
  "re_sub_class cls [r] s = map (\<lambda>c. if c \<in> set cls then r else c) s"
  by (induction s) simp_all

lemma set_invalid_chars:
  "set invalid_chars =
     {CHR 0x5C, CHR ''/'', CHR ''*'', CHR ''?'', CHR '':'', CHR 0x22, CHR ''<'', CHR ''>'', CHR ''|''}"
  by (simp add: invalid_chars_def backslash_def dquote_def)

lemma sanitize_filename_map:
  "sanitize_filename s = map (\<lambda>c. if c \<in> set invalid_chars then CHR ''_'' else c) s"
  by (simp add: sanitize_filename_def re_sub_class_single)

lemma underscore_valid: "CHR ''_'' \<notin> set invalid_chars"
  by (simp add: invalid_chars_def backslash_def dquote_def)

text \<open>
  C2. \<^verbatim>\<open>_sanitize_filename\<close> maps the string character by character: each of the nine
  characters backslash, \<open>/\<close>, \<open>*\<close>, \<open>?\<close>, \<open>:\<close>, double quote, \<open><\<close>, \<open>>\<close>, \<open>|\<close> becomes
  \<open>_\<close> and every other character is kept. The function is a pure function from strings to
  strings (it takes and returns no state). The example of the test suite is the second
  conjunct.
\<close>

theorem sanitize_filename_replaces:
  "sanitize_filename s =
     map (\<lambda>c. if c \<in> {CHR 0x5C, CHR ''/'', CHR ''*'', CHR ''?'', CHR '':'', CHR 0x22,
                        CHR ''<'', CHR ''>'', CHR ''|''}
               then CHR ''_'' else c) s
   \<and> sanitize_filename (''test'' @ [CHR 0x5C] @ ''file/with*invalid?chars:'' @ [CHR 0x22] @ ''<>|'')
       = ''test_file_with_invalid_chars_____''
   \<and> sanitize_filename ''valid-filename_123'' = ''valid-filename_123''"
proof (intro conjI)
  show "sanitize_filename s =
     map (\<lambda>c. if c \<in> {CHR 0x5C, CHR ''/'', CHR ''*'', CHR ''?'', CHR '':'', CHR 0x22,
                        CHR ''<'', CHR ''>'', CHR ''|''}
               then CHR ''_'' else c) s"
    unfolding sanitize_filename_map set_invalid_chars ..
  show "sanitize_filename (''test'' @ [CHR 0x5C] @ ''file/with*invalid?chars:'' @ [CHR 0x22] @ ''<>|'')
       = ''test_file_with_invalid_chars_____''"
    by (simp add: sanitize_filename_def invalid_chars_def backslash_def dquote_def)
  show "sanitize_filename ''valid-filename_123'' = ''valid-filename_123''"
    by (simp add: sanitize_filename_def invalid_chars_def backslash_def dquote_def)
qed

text \<open>
  C10. \<^verbatim>\<open>_sanitize_filename\<close> is idempotent, because the replacement character \<open>_\<close> is
  not one of the replaced characters, and it preserves the length of its input.
\<close>

theorem sanitize_filename_idempotent_length:
  "sanitize_filename (sanitize_filename s) = sanitize_filename s
   \<and> length (sanitize_filename s) = length s"
proof
  show "sanitize_filename (sanitize_filename s) = sanitize_filename s"
    using underscore_valid by (simp add: sanitize_filename_map)
  show "length (sanitize_filename s) = length s"
    by (simp add: sanitize_filename_map)
qed

section \<open>Decimal digits and the timestamp\<close>

lemma length_string_digits: "length string_digits = 10"
  by (simp add: string_digits_def)

lemma string_digits_nth: "d < 10 \<Longrightarrow> string_digits ! d \<in> set string_digits"
  by (simp add: length_string_digits)

lemma set_digits_of_nat: "set (digits_of_nat n) \<subseteq> set string_digits"
proof (induction n rule: digits_of_nat.induct)
  case (1 n)
  show ?case
  proof (cases "n < 10")
    case True
    then show ?thesis by (subst digits_of_nat.simps) (simp add: string_digits_nth)
  next
    case False
    with 1 show ?thesis by (subst digits_of_nat.simps) (simp add: string_digits_nth)
  qed
qed

lemma digits_of_nat_nonempty: "digits_of_nat n \<noteq> []"
  by (subst digits_of_nat.simps) simp

lemma length_digits_of_nat: "n < 10 ^ k \<Longrightarrow> 0 < k \<Longrightarrow> length (digits_of_nat n) \<le> k"
proof (induction n arbitrary: k rule: digits_of_nat.induct)
  case (1 n)
  show ?case
  proof (cases "n < 10")
    case True
    with 1(3) show ?thesis by (subst digits_of_nat.simps) simp
  next
    case False
    obtain j where k: "k = Suc j" using 1(3) by (cases k) auto
    have "j \<noteq> 0" using False 1(2) k by (cases j) auto
    moreover have "n div 10 < 10 ^ j" using 1(2) k by (simp add: less_mult_imp_div_less mult.commute)
    ultimately have "length (digits_of_nat (n div 10)) \<le> j" using 1(1)[OF False] by simp
    with False k show ?thesis by (subst digits_of_nat.simps) simp
  qed
qed

lemma length_zero_pad: "n < 10 ^ k \<Longrightarrow> 0 < k \<Longrightarrow> length (zero_pad k n) = k"
  using length_digits_of_nat[of n k] by (simp add: zero_pad_def)

lemma set_zero_pad: "set (zero_pad k n) \<subseteq> set string_digits"
proof -
  have "CHR ''0'' \<in> set string_digits" by (simp add: string_digits_def)
  then show ?thesis using set_digits_of_nat[of n] by (auto simp: zero_pad_def)
qed

lemma strftime_shape:
  assumes "valid_datetime dt"
  shows "length (strftime_YmdHMS dt) = 14 \<and> set (strftime_YmdHMS dt) \<subseteq> set string_digits"
proof -
  from assms have "year dt < 10 ^ 4" "month dt < 10 ^ 2" "day dt < 10 ^ 2"
    "hour dt < 10 ^ 2" "minute dt < 10 ^ 2" "second dt < 10 ^ 2"
    by (simp_all add: valid_datetime_def)
  then have "length (strftime_YmdHMS dt) = 14"
    by (simp add: strftime_YmdHMS_def length_zero_pad)
  moreover have "set (strftime_YmdHMS dt) \<subseteq> set string_digits"
    by (simp add: strftime_YmdHMS_def set_zero_pad)
  ultimately show ?thesis by simp
qed

lemma strftime_example: "strftime_YmdHMS example_clock = ''20231015123045''"
  by (simp add: example_clock_def strftime_YmdHMS_def zero_pad_def digits_of_nat.simps string_digits_def)

lemma valid_example_clock: "valid_datetime example_clock"
  by (simp add: valid_datetime_def example_clock_def)

lemma str_int_5000: "str_int 5000 = ''5000''"
  by (simp add: str_int_def digits_of_nat.simps string_digits_def)

lemma str_int_1000: "str_int 1000 = ''1000''"
  by (simp add: str_int_def digits_of_nat.simps string_digits_def)

lemma str_int_small: "str_int 1 = ''1''" "str_int 2 = ''2''"
  by (simp_all add: str_int_def digits_of_nat.simps string_digits_def)

section \<open>Calls made by \<open>generate_barcode\<close>\<close>

lemma generate_barcode_cases:
  "generate_barcode p self sn sc pn w =
     (case barcode_get p ''code128'' (barcode_data sn sc pn) ''JPEG'' of
        Inl e \<Rightarrow>
          (Inl e,
           w\<lparr>log := log w @ [Print (''barcode_data: '' @ barcode_data sn sc pn),
                             Barcode_get ''code128'' (barcode_data sn sc pn) ''JPEG'']\<rparr>)
      | Inr obj \<Rightarrow>
          (barcode_save p obj
             (output_dir self @ ''/barcode_'' @ sanitize_filename sn @ ''_'' @ strftime_YmdHMS (clock w)),
           w\<lparr>log := log w @ [Print (''barcode_data: '' @ barcode_data sn sc pn),
                             Barcode_get ''code128'' (barcode_data sn sc pn) ''JPEG'',
                             Barcode_save
                               (output_dir self @ ''/barcode_'' @ sanitize_filename sn @ ''_'' @
                                strftime_YmdHMS (clock w))]\<rparr>))"
  by (simp add: generate_barcode_def Let_def emit_def split: sum.splits)

lemma calls_since_append: "calls_since w (w\<lparr>log := log w @ es\<rparr>) = es"
  by (simp add: calls_since_def)

text \<open>
  C1. Every call of \<^verbatim>\<open>generate_barcode\<close> makes exactly one call of \<^verbatim>\<open>barcode.get\<close>: its
  symbology is \<open>code128\<close> and its payload is \<open>SN:\<close> + serial number + \<open>|SC:\<close> + the decimal
  text of the service cycles + \<open>|PN:\<close> + part number. The second conjunct is the example of
  the test suite.
\<close>

theorem generate_barcode_invokes_code128:
  "filter is_get (calls_since w (snd (generate_barcode p self sn sc pn w)))
     = [Barcode_get ''code128'' (''SN:'' @ sn @ ''|SC:'' @ str_int sc @ ''|PN:'' @ pn) ''JPEG'']
   \<and> filter is_get (calls_since w (snd (generate_barcode p self ''SN12345'' 5000 ''PN-ABC-789'' w)))
     = [Barcode_get ''code128'' ''SN:SN12345|SC:5000|PN:PN-ABC-789'' ''JPEG'']"
  by (simp add: generate_barcode_cases calls_since_append barcode_data_def str_int_5000
      split: sum.splits)

text \<open>
  C6. When \<^verbatim>\<open>barcode.get\<close> returns an object, \<^verbatim>\<open>generate_barcode\<close> calls its \<^verbatim>\<open>save\<close>
  exactly once, and the filename stem it passes is the output directory + \<open>/barcode_\<close> + the
  sanitised serial number + \<open>_\<close> + the timestamp; when \<^verbatim>\<open>barcode.get\<close> raises there is no
  \<^verbatim>\<open>save\<close> call. The timestamp is the clock's year, month, day, hour, minute and second,
  zero-padded to 4, 2, 2, 2, 2 and 2 digits: fourteen decimal digits for every valid date.
\<close>

theorem generate_barcode_save_stem:
  "filter is_save (calls_since w (snd (generate_barcode p self sn sc pn w))) =
     (case barcode_get p ''code128'' (barcode_data sn sc pn) ''JPEG'' of
        Inl e \<Rightarrow> []
      | Inr obj \<Rightarrow>
          [Barcode_save (output_dir self @ ''/barcode_'' @ sanitize_filename sn @ ''_'' @
                         strftime_YmdHMS (clock w))])
   \<and> strftime_YmdHMS (clock w) =
        zero_pad 4 (year (clock w)) @ zero_pad 2 (month (clock w)) @ zero_pad 2 (day (clock w)) @
        zero_pad 2 (hour (clock w)) @ zero_pad 2 (minute (clock w)) @ zero_pad 2 (second (clock w))
   \<and> (valid_datetime (clock w) \<longrightarrow>
        length (strftime_YmdHMS (clock w)) = 14
        \<and> set (strftime_YmdHMS (clock w)) \<subseteq> set ''0123456789'')"
proof (intro conjI impI)
  show "filter is_save (calls_since w (snd (generate_barcode p self sn sc pn w))) =
     (case barcode_get p ''code128'' (barcode_data sn sc pn) ''JPEG'' of
        Inl e \<Rightarrow> []
      | Inr obj \<Rightarrow>
          [Barcode_save (output_dir self @ ''/barcode_'' @ sanitize_filename sn @ ''_'' @
                         strftime_YmdHMS (clock w))])"
    by (simp add: generate_barcode_cases calls_since_append split: sum.splits)
  show "strftime_YmdHMS (clock w) =
        zero_pad 4 (year (clock w)) @ zero_pad 2 (month (clock w)) @ zero_pad 2 (day (clock w)) @
        zero_pad 2 (hour (clock w)) @ zero_pad 2 (minute (clock w)) @ zero_pad 2 (second (clock w))"
    by (simp add: strftime_YmdHMS_def)
next
  assume v: "valid_datetime (clock w)"
  from strftime_shape[OF v] show "length (strftime_YmdHMS (clock w)) = 14" by simp
  from strftime_shape[OF v] show "set (strftime_YmdHMS (clock w)) \<subseteq> set ''0123456789''"
    by (simp add: string_digits_def)
qed

text \<open>
  The theorem at the call of the test suite: serial \<open>SN12345\<close>, directory
  \<open>test_barcodes\<close>, clock 2023-10-15 12:30:45.
\<close>

theorem generate_barcode_save_stem_witness:
  "valid_datetime (clock (world_of (sconst 0)))
   \<and> filter is_save (calls_since (world_of (sconst 0))
        (snd (generate_barcode example_platform example_generator ''SN12345'' 5000 ''PN-ABC-789''
                (world_of (sconst 0)))))
      = [Barcode_save ''test_barcodes/barcode_SN12345_20231015123045'']
   \<and> length (strftime_YmdHMS (clock (world_of (sconst 0)))) = 14"
proof -
  let ?w = "world_of (sconst 0)"
  have c: "clock ?w = example_clock" by (simp add: world_of_def)
  have v: "valid_datetime (clock ?w)" unfolding c by (rule valid_example_clock)
  have g: "barcode_get example_platform ''code128'' (barcode_data ''SN12345'' 5000 ''PN-ABC-789'') ''JPEG''
             = Inr (barcode_data ''SN12345'' 5000 ''PN-ABC-789'')"
    by (simp add: example_platform_def)
  have s: "sanitize_filename ''SN12345'' = ''SN12345''"
    by (simp add: sanitize_filename_def invalid_chars_def backslash_def dquote_def)
  note t = generate_barcode_save_stem[of ?w example_platform example_generator
      "''SN12345''" 5000 "''PN-ABC-789''"]
  from t have "filter is_save (calls_since ?w
        (snd (generate_barcode example_platform example_generator ''SN12345'' 5000 ''PN-ABC-789'' ?w)))
      = (case barcode_get example_platform ''code128'' (barcode_data ''SN12345'' 5000 ''PN-ABC-789'') ''JPEG'' of
           Inl e \<Rightarrow> []
         | Inr obj \<Rightarrow>
            [Barcode_save (output_dir example_generator @ ''/barcode_'' @ sanitize_filename ''SN12345'' @ ''_'' @
                         strftime_YmdHMS (clock ?w))])"
    by (rule conjunct1)
  then have a: "filter is_save (calls_since ?w
        (snd (generate_barcode example_platform example_generator ''SN12345'' 5000 ''PN-ABC-789'' ?w)))
      = [Barcode_save ''test_barcodes/barcode_SN12345_20231015123045'']"
    by (simp add: g s c strftime_example example_generator_def)
  from t v have b: "length (strftime_YmdHMS (clock ?w)) = 14" by blast
  from v a b show ?thesis by blast
qed

text \<open>
  C7. \<^verbatim>\<open>generate_barcode_with_default_cycles(sn, pn, dc)\<close> is
  \<^verbatim>\<open>generate_barcode(sn, dc, pn)\<close>: same result and same calls. When the third argument is
  omitted the cycles are 1000, and the payload passed to \<^verbatim>\<open>barcode.get\<close> is
  \<open>SN:\<close> + serial number + \<open>|SC:1000|PN:\<close> + part number.
\<close>

theorem default_cycles_forwards:
  "generate_barcode_with_default_cycles p self sn pn (Some dc) w = generate_barcode p self sn dc pn w
   \<and> generate_barcode_with_default_cycles p self sn pn None w = generate_barcode p self sn 1000 pn w
   \<and> filter is_get (calls_since w (snd (generate_barcode_with_default_cycles p self sn pn None w)))
       = [Barcode_get ''code128'' (''SN:'' @ sn @ ''|SC:1000|PN:'' @ pn) ''JPEG'']
   \<and> filter is_get (calls_since w
         (snd (generate_barcode_with_default_cycles p self ''SN12345'' ''PN-ABC-789'' None w)))
       = [Barcode_get ''code128'' ''SN:SN12345|SC:1000|PN:PN-ABC-789'' ''JPEG'']"
  by (simp add: generate_barcode_with_default_cycles_def default_def generate_barcode_cases
      calls_since_append barcode_data_def str_int_1000 split: sum.splits)

section \<open>Failures of the collaborators\<close>

lemma init_cases:
  "init p dir_arg w =
     (let dir = default ''barcodes'' dir_arg in
      if os_path_exists p dir
      then (Inr \<lparr>output_dir = dir\<rparr>, w\<lparr>log := log w @ [Path_exists dir]\<rparr>)
      else (case os_makedirs p dir of
              Some e \<Rightarrow> (Inl e, w\<lparr>log := log w @ [Path_exists dir, Makedirs dir]\<rparr>)
            | None \<Rightarrow>
                (Inr \<lparr>output_dir = dir\<rparr>, w\<lparr>log := log w @ [Path_exists dir, Makedirs dir]\<rparr>)))"
  by (simp add: init_def Let_def emit_def split: option.splits)

text \<open>
  C9. A failure of \<^verbatim>\<open>os.makedirs\<close> in the constructor, of \<^verbatim>\<open>barcode.get\<close> or of \<^verbatim>\<open>save\<close>
  in \<^verbatim>\<open>generate_barcode\<close> is the result of the call, unchanged. The log shows what was
  done: the failing collaborator was called once (no retry) and nothing was called after it
  (no recovery, no clean-up).
\<close>

theorem failures_propagate_unchanged:
  "(\<not> os_path_exists p (default ''barcodes'' dir_arg)
       \<and> os_makedirs p (default ''barcodes'' dir_arg) = Some e \<longrightarrow>
      init p dir_arg w =
        (Inl e, w\<lparr>log := log w @ [Path_exists (default ''barcodes'' dir_arg),
                                  Makedirs (default ''barcodes'' dir_arg)]\<rparr>))
   \<and> (barcode_get p ''code128'' (barcode_data sn sc pn) ''JPEG'' = Inl e \<longrightarrow>
      generate_barcode p self sn sc pn w =
        (Inl e, w\<lparr>log := log w @ [Print (''barcode_data: '' @ barcode_data sn sc pn),
                                  Barcode_get ''code128'' (barcode_data sn sc pn) ''JPEG'']\<rparr>))
   \<and> (barcode_get p ''code128'' (barcode_data sn sc pn) ''JPEG'' = Inr obj
       \<and> barcode_save p obj (output_dir self @ ''/barcode_'' @ sanitize_filename sn @ ''_'' @
                              strftime_YmdHMS (clock w)) = Inl e \<longrightarrow>
      generate_barcode p self sn sc pn w =
        (Inl e, w\<lparr>log := log w @ [Print (''barcode_data: '' @ barcode_data sn sc pn),
                                  Barcode_get ''code128'' (barcode_data sn sc pn) ''JPEG'',
                                  Barcode_save (output_dir self @ ''/barcode_'' @ sanitize_filename sn @
                                                ''_'' @ strftime_YmdHMS (clock w))]\<rparr>))"
  by (simp add: init_cases Let_def generate_barcode_cases)

text \<open>The theorem at three collaborators, each failing at one of the three calls.\<close>

theorem failures_propagate_unchanged_witness:
  "fst (init makedirs_fails (Some ''new_dir'') (world_of (sconst 0))) = Inl permission_error
   \<and> calls_since (world_of (sconst 0)) (snd (init makedirs_fails (Some ''new_dir'') (world_of (sconst 0))))
       = [Path_exists ''new_dir'', Makedirs ''new_dir'']
   \<and> fst (generate_barcode get_fails example_generator ''SN12345'' 5000 ''PN-ABC-789'' (world_of (sconst 0)))
       = Inl illegal_character_error
   \<and> fst (generate_barcode save_fails example_generator ''SN12345'' 5000 ''PN-ABC-789'' (world_of (sconst 0)))
       = Inl os_error"
proof -
  let ?w = "world_of (sconst 0)"
  let ?d = "barcode_data ''SN12345'' 5000 ''PN-ABC-789''"
  let ?stem = "output_dir example_generator @ ''/barcode_'' @ sanitize_filename ''SN12345'' @ ''_'' @
                 strftime_YmdHMS (clock ?w)"
  have m: "\<not> os_path_exists makedirs_fails ''new_dir''
           \<and> os_makedirs makedirs_fails ''new_dir'' = Some permission_error"
    by (simp add: makedirs_fails_def example_platform_def)
  have g: "barcode_get get_fails ''code128'' ?d ''JPEG'' = Inl illegal_character_error"
    by (simp add: get_fails_def example_platform_def)
  have s: "barcode_get save_fails ''code128'' ?d ''JPEG'' = Inr ?d
           \<and> barcode_save save_fails ?d ?stem = Inl os_error"
    by (simp add: save_fails_def example_platform_def)
  from failures_propagate_unchanged[where p = makedirs_fails and dir_arg = "Some ''new_dir''"
      and e = permission_error and w = ?w] m
  have 1: "init makedirs_fails (Some ''new_dir'') ?w =
      (Inl permission_error, ?w\<lparr>log := log ?w @ [Path_exists ''new_dir'', Makedirs ''new_dir'']\<rparr>)"
    by (simp add: default_def)
  from failures_propagate_unchanged[where p = get_fails and sn = "''SN12345''" and sc = 5000
      and pn = "''PN-ABC-789''" and e = illegal_character_error and w = ?w
      and self = example_generator] g
  have 2: "fst (generate_barcode get_fails example_generator ''SN12345'' 5000 ''PN-ABC-789'' ?w)
       = Inl illegal_character_error"
    by simp
  from failures_propagate_unchanged[where p = save_fails and sn = "''SN12345''" and sc = 5000
      and pn = "''PN-ABC-789''" and e = os_error and w = ?w and obj = ?d
      and self = example_generator] s
  have 3: "fst (generate_barcode save_fails example_generator ''SN12345'' 5000 ''PN-ABC-789'' ?w)
       = Inl os_error"
    by simp
  from 1 2 3 show ?thesis by (simp add: calls_since_append)
qed

section \<open>Random serial numbers\<close>

lemma random_choices_shape:
  "length (fst (random_choices string_digits k w)) = nat k
   \<and> set (fst (random_choices string_digits k w)) \<subseteq> set string_digits"
  by (auto simp: random_choices_def length_string_digits string_digits_nth)

lemma generate_random_serial_fst:
  "fst (generate_random_serial prefix_arg length_arg w) =
     default ''SN'' prefix_arg @ fst (random_choices string_digits (default 8 length_arg) w)"
  by (simp add: generate_random_serial_def Let_def split: prod.splits)

lemma generate_random_serial_world:
  "snd (generate_random_serial pa la w) = w\<lparr>rng := sdrop (nat (default 8 la)) (rng w)\<rparr>"
  by (simp add: generate_random_serial_def random_choices_def Let_def)

lemma generate_random_serial_one:
  "generate_random_serial (Some prefix) (Some 1) w =
     (prefix @ [string_digits ! (shd (rng w) mod 10)], w\<lparr>rng := stl (rng w)\<rparr>)"
  by (simp add: generate_random_serial_def random_choices_def default_def length_string_digits)

text \<open>
  C3. For a non-negative \<open>length\<close>, \<^verbatim>\<open>generate_random_serial\<close> returns the prefix followed
  by exactly \<open>length\<close> characters, each a decimal digit; with \<open>length = 0\<close> it returns the
  bare prefix; with the default arguments it returns \<open>SN\<close> followed by eight digits. The
  function has no error result: it returns a string in every world.
\<close>

theorem generate_random_serial_shape:
  "(0 \<le> len \<longrightarrow>
      (\<exists>ds. fst (generate_random_serial (Some prefix) (Some len) w) = prefix @ ds
            \<and> int (length ds) = len \<and> set ds \<subseteq> set ''0123456789''))
   \<and> fst (generate_random_serial (Some prefix) (Some 0) w) = prefix
   \<and> (\<exists>ds. fst (generate_random_serial None None w) = ''SN'' @ ds
            \<and> length ds = 8 \<and> set ds \<subseteq> set ''0123456789'')"
proof -
  have shape: "\<exists>ds. fst (generate_random_serial pa la w) = default ''SN'' pa @ ds
            \<and> length ds = nat (default 8 la) \<and> set ds \<subseteq> set ''0123456789''" for pa la
    using random_choices_shape[of "default 8 la" w]
    unfolding generate_random_serial_fst string_digits_def by blast
  have a: "0 \<le> len \<longrightarrow>
      (\<exists>ds. fst (generate_random_serial (Some prefix) (Some len) w) = prefix @ ds
            \<and> int (length ds) = len \<and> set ds \<subseteq> set ''0123456789'')"
    using shape[of "Some prefix" "Some len"] by (auto simp: default_def)
  have b: "fst (generate_random_serial (Some prefix) (Some 0) w) = prefix"
    by (simp add: generate_random_serial_fst default_def random_choices_def)
  have c: "\<exists>ds. fst (generate_random_serial None None w) = ''SN'' @ ds
            \<and> length ds = 8 \<and> set ds \<subseteq> set ''0123456789''"
    using shape[of None None] by (simp add: default_def)
  from a b c show ?thesis by blast
qed

text \<open>The theorem at the prefix \<open>PART\<close>, length 2 and a source that draws 0 and then 1.\<close>

theorem generate_random_serial_shape_witness:
  "(0::int) \<le> 2
   \<and> (\<exists>ds. fst (generate_random_serial (Some ''PART'') (Some 2) (world_of (0 ## 1 ## sconst 0)))
              = ''PART'' @ ds
            \<and> int (length ds) = 2 \<and> set ds \<subseteq> set ''0123456789'')"
proof -
  have h: "(0::int) \<le> 2" by simp
  from generate_random_serial_shape[of 2 "''PART''" "world_of (0 ## 1 ## sconst 0)"] h
  show ?thesis by blast
qed

text \<open>
  C8. \<^verbatim>\<open>generate_barcode_with_random_serial\<close> draws one serial number with the given
  prefix and length and forwards it, the service cycles and the part number to
  \<^verbatim>\<open>generate_barcode\<close>. When it returns a pair \<open>(path, serial)\<close>, \<open>serial\<close> is the serial
  number drawn and \<open>path\<close> is what the \<^verbatim>\<open>save\<close> of the rendered barcode returned; when
  \<^verbatim>\<open>generate_barcode\<close> fails, so does the call, with the same failure. Omitted arguments
  are the prefix \<open>SN\<close> and the length 8.
\<close>

theorem random_serial_barcode_pair:
  "generate_barcode_with_random_serial p self pn sc (Some prefix) (Some len) w =
     (case generate_barcode p self (fst (generate_random_serial (Some prefix) (Some len) w)) sc pn
             (snd (generate_random_serial (Some prefix) (Some len) w)) of
        (Inl e, w2) \<Rightarrow> (Inl e, w2)
      | (Inr path, w2) \<Rightarrow> (Inr (path, fst (generate_random_serial (Some prefix) (Some len) w)), w2))
   \<and> (fst (generate_barcode_with_random_serial p self pn sc (Some prefix) (Some len) w)
         = Inr (path, serial) \<longrightarrow>
       serial = fst (generate_random_serial (Some prefix) (Some len) w)
       \<and> (\<exists>obj. barcode_get p ''code128'' (barcode_data serial sc pn) ''JPEG'' = Inr obj
            \<and> barcode_save p obj (output_dir self @ ''/barcode_'' @ sanitize_filename serial @ ''_'' @
                                   strftime_YmdHMS (clock w)) = Inr path))
   \<and> generate_barcode_with_random_serial p self pn sc None None w
       = generate_barcode_with_random_serial p self pn sc (Some ''SN'') (Some 8) w"
proof (intro conjI impI)
  show "generate_barcode_with_random_serial p self pn sc (Some prefix) (Some len) w =
     (case generate_barcode p self (fst (generate_random_serial (Some prefix) (Some len) w)) sc pn
             (snd (generate_random_serial (Some prefix) (Some len) w)) of
        (Inl e, w2) \<Rightarrow> (Inl e, w2)
      | (Inr path, w2) \<Rightarrow> (Inr (path, fst (generate_random_serial (Some prefix) (Some len) w)), w2))"
    by (cases "generate_random_serial (Some prefix) (Some len) w")
      (simp add: generate_barcode_with_random_serial_def default_def split: prod.splits sum.splits)
  show "generate_barcode_with_random_serial p self pn sc None None w
       = generate_barcode_with_random_serial p self pn sc (Some ''SN'') (Some 8) w"
    by (simp add: generate_barcode_with_random_serial_def default_def)
next
  assume r: "fst (generate_barcode_with_random_serial p self pn sc (Some prefix) (Some len) w)
         = Inr (path, serial)"
  let ?s = "fst (generate_random_serial (Some prefix) (Some len) w)"
  let ?w1 = "snd (generate_random_serial (Some prefix) (Some len) w)"
  have c: "clock ?w1 = clock w" by (simp add: generate_random_serial_world)
  from r have *: "serial = ?s \<and> fst (generate_barcode p self ?s sc pn ?w1) = Inr path"
    by (auto simp: generate_barcode_with_random_serial_def default_def split: prod.splits sum.splits)
  then show "serial = ?s" by simp
  from * show "\<exists>obj. barcode_get p ''code128'' (barcode_data serial sc pn) ''JPEG'' = Inr obj
            \<and> barcode_save p obj (output_dir self @ ''/barcode_'' @ sanitize_filename serial @ ''_'' @
                                   strftime_YmdHMS (clock w)) = Inr path"
    by (auto simp: generate_barcode_cases c split: sum.splits)
qed

text \<open>
  The theorem at part number \<open>PN-TEST\<close>, 2000 cycles, length 1 and a random source that
  draws 7.
\<close>

theorem random_serial_barcode_pair_witness:
  "fst (generate_barcode_with_random_serial example_platform example_generator ''PN-TEST'' 2000
          (Some ''SN'') (Some 1) (world_of (7 ## sconst 0)))
     = Inr (''test_barcodes/barcode_SN7_20231015123045.jpeg'', ''SN7'')
   \<and> ''SN7'' = fst (generate_random_serial (Some ''SN'') (Some 1) (world_of (7 ## sconst 0)))
   \<and> barcode_save example_platform ''SN:SN7|SC:2000|PN:PN-TEST''
        ''test_barcodes/barcode_SN7_20231015123045'' = Inr ''test_barcodes/barcode_SN7_20231015123045.jpeg''"
proof -
  let ?w = "world_of (7 ## sconst 0)"
  have s: "sanitize_filename ''SN7'' = ''SN7''"
    by (simp add: sanitize_filename_def invalid_chars_def backslash_def dquote_def)
  have r: "fst (generate_barcode_with_random_serial example_platform example_generator ''PN-TEST'' 2000
          (Some ''SN'') (Some 1) ?w)
     = Inr (''test_barcodes/barcode_SN7_20231015123045.jpeg'', ''SN7'')"
    by (simp add: generate_barcode_with_random_serial_def default_def generate_random_serial_one
        generate_barcode_cases example_platform_def example_generator_def world_of_def
        string_digits_def s strftime_example)
  from random_serial_barcode_pair[of example_platform example_generator "''PN-TEST''" 2000
      "''SN''" 1 ?w "''test_barcodes/barcode_SN7_20231015123045.jpeg''" "''SN7''"] r
  have "''SN7'' = fst (generate_random_serial (Some ''SN'') (Some 1) ?w)" by blast
  moreover have "barcode_save example_platform ''SN:SN7|SC:2000|PN:PN-TEST''
        ''test_barcodes/barcode_SN7_20231015123045'' = Inr ''test_barcodes/barcode_SN7_20231015123045.jpeg''"
    by (simp add: example_platform_def)
  ultimately show ?thesis using r by blast
qed

section \<open>Batches of serial numbers\<close>
















section \<open>The payload and its fields\<close>

lemma digit_cases: "(d::nat) < 10 \<Longrightarrow> d \<in> {0, 1, 2, 3, 4, 5, 6, 7, 8, 9}"
  by auto

lemma digit_value_nth: "d < 10 \<Longrightarrow> of_char (string_digits ! d) - 48 = d"
  using digit_cases[of d] by (auto simp: string_digits_def)

lemma foldl_digits_of_nat:
  "foldl (\<lambda>a c. 10 * a + (of_char c - 48)) 0 (digits_of_nat n) = n"
proof (induction n rule: digits_of_nat.induct)
  case (1 n)
  show ?case
  proof (cases "n < 10")
    case True
    then show ?thesis by (subst digits_of_nat.simps) (simp add: digit_value_nth)
  next
    case False
    with 1 show ?thesis by (subst digits_of_nat.simps) (simp add: digit_value_nth)
  qed
qed

lemma spec_parse_nat_digits: "spec_parse_nat (digits_of_nat n) = Some n"
  by (simp add: spec_parse_nat_def digits_of_nat_nonempty set_digits_of_nat foldl_digits_of_nat)

lemma hd_digits_of_nat: "hd (digits_of_nat n) \<noteq> CHR ''-''"
proof -
  have "hd (digits_of_nat n) \<in> set string_digits"
    using set_digits_of_nat[of n] digits_of_nat_nonempty[of n] hd_in_set by blast
  then show ?thesis by (auto simp: string_digits_def)
qed

lemma spec_parse_int_str_int: "spec_parse_int (str_int i) = Some i"
  by (simp add: spec_parse_int_def str_int_def spec_parse_nat_digits hd_digits_of_nat
      digits_of_nat_nonempty)

lemma bar_notin_str_int: "CHR ''|'' \<notin> set (str_int i)"
proof -
  have "CHR ''|'' \<notin> set string_digits" by (simp add: string_digits_def)
  then have "CHR ''|'' \<notin> set (digits_of_nat n)" for n using set_digits_of_nat[of n] by blast
  then show ?thesis by (simp add: str_int_def)
qed

lemma split_on_none: "sep \<notin> set s \<Longrightarrow> spec_split_on sep s = [s]"
  by (induction s) auto

lemma split_on_first: "sep \<notin> set s \<Longrightarrow> spec_split_on sep (s @ sep # t) = s # spec_split_on sep t"
  by (induction s) auto

lemma split_on_barcode_data:
  assumes "CHR ''|'' \<notin> set sn" "CHR ''|'' \<notin> set pn"
  shows "spec_split_on CHR ''|'' (barcode_data sn sc pn) = [''SN:'' @ sn, ''SC:'' @ str_int sc, ''PN:'' @ pn]"
proof -
  have eq: "barcode_data sn sc pn =
      (''SN:'' @ sn) @ CHR ''|'' # ((''SC:'' @ str_int sc) @ CHR ''|'' # (''PN:'' @ pn))"
    by (simp add: barcode_data_def)
  have 1: "CHR ''|'' \<notin> set (''SN:'' @ sn)" using assms by simp
  have 2: "CHR ''|'' \<notin> set (''SC:'' @ str_int sc)" using bar_notin_str_int by simp
  have 3: "CHR ''|'' \<notin> set (''PN:'' @ pn)" using assms by simp
  show ?thesis
    unfolding eq split_on_first[OF 1] split_on_first[OF 2] split_on_none[OF 3] ..
qed

text \<open>
  C5. The payload is lossless for fields without \<open>|\<close>: for a serial number and a part
  number that contain no \<open>|\<close> (any service cycles, empty strings included) the three fields
  are read back from the payload by splitting it at \<open>|\<close> and each part at its first \<open>:\<close>.
\<close>

theorem barcode_data_roundtrip:
  "CHR ''|'' \<notin> set sn \<Longrightarrow> CHR ''|'' \<notin> set pn \<Longrightarrow>
     spec_parse_payload (barcode_data sn sc pn) = Some (sn, sc, pn)"
  by (simp add: spec_parse_payload_def split_on_barcode_data spec_split_first_def spec_parse_int_str_int)

text \<open>
  The payload is not lossless for every request: the generator neither escapes nor rejects
  a \<open>|\<close> inside a field. The two different requests below have the same payload, so no
  decoder can return both; and the decoder above does not return the first.
\<close>

theorem barcode_data_not_lossless:
  "barcode_data ''A|SC:1|PN:B'' 2 ''C'' = barcode_data ''A'' 1 ''B|SC:2|PN:C''
   \<and> (''A|SC:1|PN:B'', 2::int, ''C'') \<noteq> (''A'', 1, ''B|SC:2|PN:C'')
   \<and> spec_parse_payload (barcode_data ''A|SC:1|PN:B'' 2 ''C'') \<noteq> Some (''A|SC:1|PN:B'', 2, ''C'')"
  by (simp add: barcode_data_def str_int_small spec_parse_payload_def spec_split_first_def)

text \<open>The theorem at the request of the test suite.\<close>

theorem barcode_data_roundtrip_witness:
  "CHR ''|'' \<notin> set ''SN12345'' \<and> CHR ''|'' \<notin> set ''PN-ABC-789''
   \<and> spec_parse_payload ''SN:SN12345|SC:5000|PN:PN-ABC-789'' = Some (''SN12345'', 5000, ''PN-ABC-789'')"
proof -
  have a: "CHR ''|'' \<notin> set ''SN12345''" and b: "CHR ''|'' \<notin> set ''PN-ABC-789''" by simp_all
  have "barcode_data ''SN12345'' 5000 ''PN-ABC-789'' = ''SN:SN12345|SC:5000|PN:PN-ABC-789''"
    by (simp add: barcode_data_def str_int_def digits_of_nat.simps string_digits_def)
  with barcode_data_roundtrip[OF a b, of 5000] a b show ?thesis by simp
qed

end
